theory Spec2Isabelle
  imports Main
begin

section \<open>Data model of \<open>apps/assets/models/asset/common.py\<close>\<close>

subsection \<open>Python values\<close>

text \<open>
  The values that live in JSON columns and in model attributes. \<open>PNone\<close> is Python's
  \<open>None\<close>; \<open>PList\<close> and \<open>PDict\<close> are the two native containers that
  \<open>isinstance(v, (list, dict))\<close> recognises.
\<close>

datatype pyval =
    PNone
  | PBool bool
  | PInt int
  | PStr string
  | PList "pyval list"
  | PDict "(string \<times> pyval) list"

text \<open>A \<open>dict\<close> with string keys; \<open>d.update(e)\<close> is \<open>d ++ e\<close>, \<open>d[k] = v\<close> is \<open>d(k \<mapsto> v)\<close>.\<close>

type_synonym pydict = "string \<rightharpoonup> pyval"

datatype error = TypeError | JSONDecodeError

subsection \<open>Models\<close>

record node =
  node_id :: string
  node_key :: string
  node_value :: string

text \<open>One row of \<open>platform.protocols.values('name', 'public', 'setting')\<close>.\<close>

record platform_protocol =
  pp_name :: string
  pp_public :: bool
  pp_setting :: pydict

text \<open>
  \<open>Platform\<close> is imported from \<open>..platform\<close>; the fields are the ones this file reads.
  The automation model is not declared here, so its type is the parameter \<open>'au\<close>;
  \<open>automation\<close> is \<open>None\<close> when the platform has none.
\<close>

record 'au platform =
  plat_name :: string
  plat_type :: string
  plat_category :: string
  su_enabled :: bool
  domain_enabled :: bool
  automation :: "'au option"
  plat_protocols :: "platform_protocol list"

text \<open>
  A field of \<open>instance._meta.local_fields\<close>: its name, whether it is a
  \<open>models.JSONField\<close> and whether it is an \<open>EncryptMixin\<close>.
\<close>

record spec_field =
  f_name :: string
  f_is_json :: bool
  f_is_encrypt :: bool

text \<open>
  The category-specific extension instance (\<open>asset.host\<close>, \<open>asset.database\<close>, ...):
  its local fields and \<open>getattr(instance, name)\<close>.
\<close>

record spec_instance =
  local_fields :: "spec_field list"
  attrs :: "string \<Rightarrow> pyval"

text \<open>
  \<open>category_attr a c\<close> is \<open>getattr(a, c, None)\<close> for a category name \<open>c\<close>:
  the extension instance, or \<open>None\<close> when the asset has none.
\<close>

record 'au asset =
  asset_id :: string
  asset_name :: string
  address :: string
  platform :: "'au platform"
  nodes :: "node list"
  is_active :: bool
  gathered_info :: "pydict option"
  custom_info :: "pydict option"
  category_attr :: "string \<Rightarrow> spec_instance option"

text \<open>\<open>proto_setting\<close> is the attribute \<open>_setting\<close>, \<open>None\<close> by default.\<close>

record 'au protocol =
  proto_name :: string
  proto_port :: int
  proto_asset :: "'au asset"
  proto_setting :: "pydict option"

subsection \<open>Query sets\<close>

text \<open>A table is the list of its rows in primary-key order; \<open>first()\<close> of a query set.\<close>

definition first :: "'a list \<Rightarrow> 'a option" where
  "first qs = (case qs of [] \<Rightarrow> None | x # _ \<Rightarrow> Some x)"

text \<open>
  \<open>self.protocols.all()\<close>: the reverse side of the foreign key \<open>Protocol.asset\<close>,
  over the table \<open>objs\<close> of all protocols.
\<close>

definition asset_protocols :: "'au protocol list \<Rightarrow> 'au asset \<Rightarrow> 'au protocol list" where
  "asset_protocols objs self =
     filter (\<lambda>p. asset_id (proto_asset p) = asset_id self) objs"

section \<open>Protocol\<close>

text \<open>
  \<open>asset_platform_protocol\<close> returns the first catalog row of the owning asset's platform
  with the protocol's name, or \<open>{}\<close> (here \<open>None\<close>: a dict with none of the three keys).
\<close>

definition asset_platform_protocol :: "'au protocol \<Rightarrow> platform_protocol option" where
  "asset_platform_protocol self =
     (let protocols = plat_protocols (platform (proto_asset self));
          protocols = filter (\<lambda>p. pp_name p = proto_name self) protocols
      in if length protocols > 0 then Some (protocols ! 0) else None)"

definition setting :: "'au protocol \<Rightarrow> pydict" where
  "setting self =
     (case proto_setting self of
        Some s \<Rightarrow> s
      | None \<Rightarrow>
          (case asset_platform_protocol self of
             Some row \<Rightarrow> pp_setting row
           | None \<Rightarrow> Map.empty))"

definition setting_setter :: "'au protocol \<Rightarrow> pydict option \<Rightarrow> 'au protocol" where
  "setting_setter self v = self\<lparr>proto_setting := v\<rparr>"

definition public :: "'au protocol \<Rightarrow> bool" where
  "public self =
     (case asset_platform_protocol self of
        Some row \<Rightarrow> pp_public row
      | None \<Rightarrow> True)"

section \<open>Asset\<close>

definition get_target_ssh_port :: "'au protocol list \<Rightarrow> 'au asset \<Rightarrow> int" where
  "get_target_ssh_port objs self =
     (let protocol = first (filter (\<lambda>p. proto_name p = ''ssh'') (asset_protocols objs self))
      in case protocol of Some p \<Rightarrow> proto_port p | None \<Rightarrow> 22)"


subsection \<open>NodesRelationMixin\<close>

text \<open>
  \<open>Node\<close> lives in \<open>..node\<close>, outside this file. The three things used of it are
  parameters: \<open>node_objects\<close> is the table \<open>Node.objects\<close>, \<open>org_root\<close> is the node
  returned by \<open>Node.org_root()\<close>, and \<open>get_ancestor_keys node with_self\<close> is the
  method of that name.
\<close>

definition get_nodes :: "node list \<Rightarrow> node \<Rightarrow> 'au asset \<Rightarrow> node list" where
  "get_nodes node_objects org_root self =
     (let ns = nodes self
      in if ns = [] then filter (\<lambda>n. node_id n = node_id org_root) node_objects else ns)"

definition get_all_node_keys ::
  "node list \<Rightarrow> node \<Rightarrow> (node \<Rightarrow> bool \<Rightarrow> string list) \<Rightarrow> 'au asset \<Rightarrow> string set" where
  "get_all_node_keys node_objects org_root get_ancestor_keys self =
     fold (\<lambda>node node_keys. node_keys \<union> set (get_ancestor_keys node True))
       (get_nodes node_objects org_root self) {}"

text \<open>\<open>get_all_nodes(flat=False)\<close>; \<open>distinct()\<close> drops repeated rows.\<close>

definition get_all_nodes ::
  "node list \<Rightarrow> node \<Rightarrow> (node \<Rightarrow> bool \<Rightarrow> string list) \<Rightarrow> 'au asset \<Rightarrow> node list" where
  "get_all_nodes node_objects org_root get_ancestor_keys self =
     (let node_keys = get_all_node_keys node_objects org_root get_ancestor_keys self
      in remdups (filter (\<lambda>n. node_key n \<in> node_keys) node_objects))"

text \<open>\<open>get_all_nodes(flat=True)\<close>: the set of the ids.\<close>

definition get_all_nodes_flat ::
  "node list \<Rightarrow> node \<Rightarrow> (node \<Rightarrow> bool \<Rightarrow> string list) \<Rightarrow> 'au asset \<Rightarrow> string set" where
  "get_all_nodes_flat node_objects org_root get_ancestor_keys self =
     set (map node_id (get_all_nodes node_objects org_root get_ancestor_keys self))"

definition get_all_nodes_for_assets ::
  "node list \<Rightarrow> node \<Rightarrow> (node \<Rightarrow> bool \<Rightarrow> string list) \<Rightarrow> 'au asset list \<Rightarrow> node list" where
  "get_all_nodes_for_assets node_objects org_root get_ancestor_keys assets =
     (let node_keys =
            fold (\<lambda>asset node_keys.
                    node_keys \<union> get_all_node_keys node_objects org_root get_ancestor_keys asset)
              assets {}
      in filter (\<lambda>n. node_key n \<in> node_keys) node_objects)"

subsection \<open>Structured fields of the category extension\<close>

definition is_list_or_dict :: "pyval \<Rightarrow> bool" where
  "is_list_or_dict v = (case v of PList _ \<Rightarrow> True | PDict _ \<Rightarrow> True | _ \<Rightarrow> False)"

text \<open>
  \<open>json.loads(v)\<close>: a \<open>TypeError\<close> on anything that is not a string, and on a string
  the standard library's decoder, the parameter \<open>decode\<close> (\<open>None\<close> where it raises
  \<open>JSONDecodeError\<close>).
\<close>

definition json_loads :: "(string \<Rightarrow> pyval option) \<Rightarrow> pyval \<Rightarrow> error + pyval" where
  "json_loads decode v =
     (case v of
        PStr s \<Rightarrow> (case decode s of Some x \<Rightarrow> Inr x | None \<Rightarrow> Inl JSONDecodeError)
      | _ \<Rightarrow> Inl TypeError)"

text \<open>The loop of \<open>get_spec_values\<close>, with the dict \<open>info\<close> built so far.\<close>

fun get_spec_values_loop ::
  "(string \<Rightarrow> pyval option) \<Rightarrow> spec_instance \<Rightarrow> spec_field list \<Rightarrow> pydict \<Rightarrow> error + pydict" where
  "get_spec_values_loop decode inst [] info = Inr info"
| "get_spec_values_loop decode inst (i # fs) info =
     (let v = attrs inst (f_name i)
      in if f_is_json i \<and> \<not> is_list_or_dict v then
           (case json_loads decode v of
              Inl e \<Rightarrow> Inl e
            | Inr v' \<Rightarrow> get_spec_values_loop decode inst fs (info(f_name i \<mapsto> v')))
         else get_spec_values_loop decode inst fs (info(f_name i \<mapsto> v)))"

definition get_spec_values ::
  "(string \<Rightarrow> pyval option) \<Rightarrow> spec_instance \<Rightarrow> spec_field list \<Rightarrow> error + pydict" where
  "get_spec_values decode inst fs = get_spec_values_loop decode inst fs Map.empty"

definition get_spec_fields :: "spec_instance \<Rightarrow> bool \<Rightarrow> spec_field list" where
  "get_spec_fields inst secret =
     (let spec_fields = filter (\<lambda>i. f_name i \<noteq> ''asset_ptr'') (local_fields inst);
          spec_fields = filter (\<lambda>i. f_is_encrypt i = secret) spec_fields
      in spec_fields)"

definition category :: "'au asset \<Rightarrow> string" where
  "category self = plat_category (platform self)"

definition spec_info :: "(string \<Rightarrow> pyval option) \<Rightarrow> 'au asset \<Rightarrow> error + pydict" where
  "spec_info decode self =
     (case category_attr self (category self) of
        None \<Rightarrow> Inr Map.empty
      | Some inst \<Rightarrow> get_spec_values decode inst (get_spec_fields inst False))"

definition secret_info :: "(string \<Rightarrow> pyval option) \<Rightarrow> 'au asset \<Rightarrow> error + pydict" where
  "secret_info decode self =
     (case category_attr self (category self) of
        None \<Rightarrow> Inr Map.empty
      | Some inst \<Rightarrow> get_spec_values decode inst (get_spec_fields inst True))"

text \<open>\<open>x or {}\<close> for a JSON column that holds a dict or \<open>None\<close>.\<close>

definition or_empty :: "pydict option \<Rightarrow> pydict" where
  "or_empty x = (case x of None \<Rightarrow> Map.empty | Some d \<Rightarrow> d)"

definition info :: "(string \<Rightarrow> pyval option) \<Rightarrow> 'au asset \<Rightarrow> error + pydict" where
  "info decode self =
     (let d = Map.empty;
          d = d ++ or_empty (gathered_info self);
          d = d ++ or_empty (custom_info self)
      in case spec_info decode self of
           Inl e \<Rightarrow> Inl e
         | Inr s \<Rightarrow> Inr (d ++ s))"

text \<open>
  \<open>model_to_dict\<close> is Django's; it is a parameter, from the automation model to the
  dict of its fields.
\<close>

definition auto_config :: "('au \<Rightarrow> pydict) \<Rightarrow> 'au asset \<Rightarrow> pydict" where
  "auto_config model_to_dict self =
     (let p = platform self;
          au = automation (platform self);
          d = [''su_enabled'' \<mapsto> PBool (su_enabled p),
               ''domain_enabled'' \<mapsto> PBool (domain_enabled p),
               ''ansible_enabled'' \<mapsto> PBool False]
      in case au of
           None \<Rightarrow> d
         | Some a \<Rightarrow> d ++ model_to_dict a)"

definition get_target_ip :: "'au asset \<Rightarrow> string" where
  "get_target_ip self = address self"

subsection \<open>Assets by secret type\<close>

text \<open>
  \<open>assets.values_list('id', 'protocols__name')\<close>: one row for each protocol of each
  asset, and one row with \<open>None\<close> for an asset that has no protocol (a left join).
\<close>

definition values_list_id_protocols_name ::
  "'au protocol list \<Rightarrow> 'au asset list \<Rightarrow> (string \<times> string option) list" where
  "values_list_id_protocols_name protocol_objects assets =
     concat (map (\<lambda>a. case asset_protocols protocol_objects a of
                         [] \<Rightarrow> [(asset_id a, None)]
                       | ps \<Rightarrow> map (\<lambda>p. (asset_id a, Some (proto_name p))) ps) assets)"

text \<open>
  \<open>protocol_secret_types_map.get(protocol, [])\<close>. The table
  \<open>const.Protocol.protocol_secret_types()\<close> is declared outside this file and is the
  parameter \<open>tbl\<close>; no key of it is \<open>None\<close>.
\<close>

definition secret_types_get :: "(string \<rightharpoonup> string list) \<Rightarrow> string option \<Rightarrow> string list" where
  "secret_types_get tbl protocol =
     (case protocol of
        None \<Rightarrow> []
      | Some name \<Rightarrow> (case tbl name of None \<Rightarrow> [] | Some ts \<Rightarrow> ts))"

text \<open>The body of the loop over the rows, on the \<open>defaultdict(set)\<close>.\<close>

definition secret_types_step ::
  "(string \<rightharpoonup> string list) \<Rightarrow> string \<times> string option \<Rightarrow> (string \<rightharpoonup> string set) \<Rightarrow>
   (string \<rightharpoonup> string set)" where
  "secret_types_step tbl row m =
     (case row of (aid, protocol) \<Rightarrow>
        (let secret_types = set (secret_types_get tbl protocol)
         in m(aid \<mapsto> (case m aid of None \<Rightarrow> {} | Some s \<Rightarrow> s) \<union> secret_types)))"

definition get_secret_type_assets ::
  "'au asset list \<Rightarrow> 'au protocol list \<Rightarrow> (string \<rightharpoonup> string list) \<Rightarrow> string list \<Rightarrow> string \<Rightarrow>
   'au asset list" where
  "get_secret_type_assets asset_objects protocol_objects tbl asset_ids secret_type =
     (let assets = filter (\<lambda>a. asset_id a \<in> set asset_ids) asset_objects;
          asset_protocol = values_list_id_protocols_name protocol_objects assets;
          asset_secret_types_mapp = fold (secret_types_step tbl) asset_protocol Map.empty
      in filter (\<lambda>asset. secret_type \<in>
                   (case asset_secret_types_mapp (asset_id asset) of None \<Rightarrow> {} | Some s \<Rightarrow> s))
           assets)"


section \<open>Example data\<close>

text \<open>
  A Linux host platform whose catalog declares \<open>ssh\<close> with setting \<open>{"x": 1}\<close> and
  \<open>rdp\<close>; the automation model of the examples is the dict of its fields.
\<close>

definition ex_platform :: "pydict option \<Rightarrow> pydict platform" where
  "ex_platform au =
     \<lparr>plat_name = ''Linux'', plat_type = ''linux'', plat_category = ''host'',
      su_enabled = True, domain_enabled = False, automation = au,
      plat_protocols =
        [\<lparr>pp_name = ''ssh'', pp_public = True, pp_setting = [''x'' \<mapsto> PInt 1]\<rparr>,
         \<lparr>pp_name = ''rdp'', pp_public = False, pp_setting = Map.empty\<rparr>]\<rparr>"

text \<open>
  A host extension with a plain field \<open>k\<close>, a JSON field \<open>tags\<close> stored as the text
  \<open>[1]\<close>, and an encrypted field \<open>token\<close>.
\<close>

definition ex_host :: spec_instance where
  "ex_host =
     \<lparr>local_fields =
        [\<lparr>f_name = ''asset_ptr'', f_is_json = False, f_is_encrypt = False\<rparr>,
         \<lparr>f_name = ''k'', f_is_json = False, f_is_encrypt = False\<rparr>,
         \<lparr>f_name = ''tags'', f_is_json = True, f_is_encrypt = False\<rparr>,
         \<lparr>f_name = ''token'', f_is_json = False, f_is_encrypt = True\<rparr>],
      attrs = (\<lambda>n. if n = ''k'' then PStr ''s''
                    else if n = ''tags'' then PStr ''[1]''
                    else if n = ''token'' then PStr ''t0''
                    else PNone)\<rparr>"

definition ex_decode :: "string \<Rightarrow> pyval option" where
  "ex_decode s = (if s = ''[1]'' then Some (PList [PInt 1]) else None)"

definition ex_asset ::
  "string \<Rightarrow> node list \<Rightarrow> pydict option \<Rightarrow> pydict option \<Rightarrow> spec_instance option \<Rightarrow>
   pydict asset" where
  "ex_asset aid ns g c ext =
     \<lparr>asset_id = aid, asset_name = ''web-1'', address = ''10.0.0.1'',
      platform = ex_platform None, nodes = ns, is_active = True,
      gathered_info = g, custom_info = c,
      category_attr = (\<lambda>n. if n = ''host'' then ext else None)\<rparr>"

definition ex_protocol :: "string \<Rightarrow> int \<Rightarrow> string \<Rightarrow> pydict option \<Rightarrow> pydict protocol" where
  "ex_protocol n p aid s =
     \<lparr>proto_name = n, proto_port = p,
      proto_asset = ex_asset aid [] None None None, proto_setting = s\<rparr>"

definition ex_node :: "string \<Rightarrow> string \<Rightarrow> node" where
  "ex_node i k = \<lparr>node_id = i, node_key = k, node_value = k\<rparr>"

text \<open>Ancestor keys on the three keys \<open>1\<close>, \<open>1:2\<close> and \<open>1:3\<close> of the examples.\<close>

definition ex_ancestor_keys :: "node \<Rightarrow> bool \<Rightarrow> string list" where
  "ex_ancestor_keys n with_self =
     (if node_key n = ''1'' then [] else [''1'']) @ (if with_self then [node_key n] else [])"

definition ex_secret_types :: "string \<rightharpoonup> string list" where
  "ex_secret_types =
     [''ssh'' \<mapsto> [''password'', ''ssh_key''], ''vnc'' \<mapsto> [''vnc_password'']]"

section \<open>Protocol settings\<close>

lemma asset_platform_protocol_find:
  "asset_platform_protocol p =
     find (\<lambda>row. pp_name row = proto_name p) (plat_protocols (platform (proto_asset p)))"
proof -
  have "(if length (filter P xs) > 0 then Some (filter P xs ! 0) else None) = find P xs"
    for P :: "platform_protocol \<Rightarrow> bool" and xs
    by (induction xs) auto
  then show ?thesis
    by (simp add: asset_platform_protocol_def Let_def)
qed

text \<open>
  C2. \<open>setting\<close> returns the explicit override unchanged when one is set; otherwise the
  \<open>setting\<close> of the first catalog row of the owning asset's platform whose name is the
  protocol's name; and the empty dict when no row has that name.
\<close>

theorem setting_resolution:
  "(\<forall>s. proto_setting p = Some s \<longrightarrow> setting p = s) \<and>
   (proto_setting p = None \<longrightarrow>
      (\<forall>row. find (\<lambda>row. pp_name row = proto_name p)
               (plat_protocols (platform (proto_asset p))) = Some row
             \<longrightarrow> setting p = pp_setting row) \<and>
      ((\<forall>row \<in> set (plat_protocols (platform (proto_asset p))). pp_name row \<noteq> proto_name p)
             \<longrightarrow> setting p = Map.empty))"
proof (intro conjI allI impI)
  fix s assume "proto_setting p = Some s"
  then show "setting p = s" by (simp add: setting_def)
next
  fix row
  assume "proto_setting p = None"
    and "find (\<lambda>row. pp_name row = proto_name p)
           (plat_protocols (platform (proto_asset p))) = Some row"
  then show "setting p = pp_setting row"
    by (simp add: setting_def asset_platform_protocol_find)
next
  assume n: "proto_setting p = None"
    and "\<forall>row \<in> set (plat_protocols (platform (proto_asset p))). pp_name row \<noteq> proto_name p"
  then have "find (\<lambda>row. pp_name row = proto_name p)
           (plat_protocols (platform (proto_asset p))) = None"
    by (simp add: find_None_iff)
  with n show "setting p = Map.empty"
    by (simp add: setting_def asset_platform_protocol_find)
qed

theorem setting_resolution_witness:
  "setting (ex_protocol ''ssh'' 22 ''a1'' (Some [''y'' \<mapsto> PInt 2])) = [''y'' \<mapsto> PInt 2] \<and>
   setting (ex_protocol ''ssh'' 22 ''a1'' None) = [''x'' \<mapsto> PInt 1] \<and>
   setting (ex_protocol ''vnc'' 5900 ''a1'' None) = Map.empty"
proof -
  have a: "setting (ex_protocol ''ssh'' 22 ''a1'' (Some [''y'' \<mapsto> PInt 2])) = [''y'' \<mapsto> PInt 2]"
    using setting_resolution [of "ex_protocol ''ssh'' 22 ''a1'' (Some [''y'' \<mapsto> PInt 2])"]
    by (simp add: ex_protocol_def)
  have b: "setting (ex_protocol ''ssh'' 22 ''a1'' None) = [''x'' \<mapsto> PInt 1]"
    using setting_resolution [of "ex_protocol ''ssh'' 22 ''a1'' None"]
    by (simp add: ex_protocol_def ex_asset_def ex_platform_def)
  have c: "setting (ex_protocol ''vnc'' 5900 ''a1'' None) = Map.empty"
    using setting_resolution [of "ex_protocol ''vnc'' 5900 ''a1'' None"]
    by (simp add: ex_protocol_def ex_asset_def ex_platform_def)
  from a b c show ?thesis by simp
qed

text \<open>
  C10. The override is honoured exactly when it is not \<open>None\<close>: after the setter has
  stored a dict, \<open>setting\<close> returns that dict, also when it is the empty dict (the
  catalog is not consulted); after the setter has stored \<open>None\<close>, \<open>setting\<close> is the
  catalog lookup.
\<close>

theorem setting_override_iff_not_none:
  "setting (setting_setter p v) =
     (case v of
        Some s \<Rightarrow> s
      | None \<Rightarrow> (case find (\<lambda>row. pp_name row = proto_name p)
                       (plat_protocols (platform (proto_asset p))) of
                   Some row \<Rightarrow> pp_setting row
                 | None \<Rightarrow> Map.empty)) \<and>
   setting (setting_setter p (Some Map.empty)) = Map.empty"
  by (simp add: setting_def setting_setter_def asset_platform_protocol_find split: option.splits)

theorem setting_override_iff_not_none_witness:
  "setting (setting_setter (ex_protocol ''ssh'' 22 ''a1'' (Some [''y'' \<mapsto> PInt 2]))
      (Some Map.empty)) = Map.empty \<and>
   setting (setting_setter (ex_protocol ''ssh'' 22 ''a1'' (Some [''y'' \<mapsto> PInt 2])) None)
     = [''x'' \<mapsto> PInt 1]"
  using
    setting_override_iff_not_none
      [of "ex_protocol ''ssh'' 22 ''a1'' (Some [''y'' \<mapsto> PInt 2])" "Some Map.empty"]
    setting_override_iff_not_none
      [of "ex_protocol ''ssh'' 22 ''a1'' (Some [''y'' \<mapsto> PInt 2])" None]
  by (simp add: ex_protocol_def ex_asset_def ex_platform_def)

section \<open>Target port\<close>

lemma first_filter_find: "first (filter P xs) = find P xs"
  by (induction xs) (auto simp: first_def)

text \<open>
  C9. \<open>get_target_ssh_port\<close> is the port of the asset's protocol named \<open>ssh\<close> (the first
  one in the table) when the asset has one, and 22 when it has none.
\<close>

theorem get_target_ssh_port_ssh_or_22:
  "(\<forall>p. find (\<lambda>p. proto_name p = ''ssh'') (asset_protocols objs a) = Some p
        \<longrightarrow> get_target_ssh_port objs a = proto_port p) \<and>
   ((\<exists>p \<in> set (asset_protocols objs a). proto_name p = ''ssh'')
        \<longrightarrow> (\<exists>p \<in> set (asset_protocols objs a).
               proto_name p = ''ssh'' \<and> get_target_ssh_port objs a = proto_port p)) \<and>
   ((\<forall>p \<in> set (asset_protocols objs a). proto_name p \<noteq> ''ssh'')
        \<longrightarrow> get_target_ssh_port objs a = 22)"
proof -
  let ?ps = "asset_protocols objs a"
  let ?P = "\<lambda>p::'a protocol. proto_name p = ''ssh''"
  have port: "get_target_ssh_port objs a =
                (case find ?P ?ps of Some p \<Rightarrow> proto_port p | None \<Rightarrow> 22)"
    by (simp add: get_target_ssh_port_def first_filter_find)
  have 1: "\<forall>p. find ?P ?ps = Some p \<longrightarrow> get_target_ssh_port objs a = proto_port p"
    by (simp add: port)
  have 2: "(\<exists>p \<in> set ?ps. ?P p) \<longrightarrow>
           (\<exists>p \<in> set ?ps. ?P p \<and> get_target_ssh_port objs a = proto_port p)"
  proof
    assume "\<exists>p \<in> set ?ps. ?P p"
    then obtain q where q: "find ?P ?ps = Some q"
      by (cases "find ?P ?ps") (auto simp: find_None_iff)
    then have "q \<in> set ?ps" "?P q"
      by (auto simp: find_Some_iff)
    with q show "\<exists>p \<in> set ?ps. ?P p \<and> get_target_ssh_port objs a = proto_port p"
      by (auto simp: port)
  qed
  have 3: "(\<forall>p \<in> set ?ps. \<not> ?P p) \<longrightarrow> get_target_ssh_port objs a = 22"
  proof
    assume "\<forall>p \<in> set ?ps. \<not> ?P p"
    then have "find ?P ?ps = None" by (simp add: find_None_iff)
    then show "get_target_ssh_port objs a = 22" by (simp add: port)
  qed
  from 1 2 3 show ?thesis by blast
qed

theorem get_target_ssh_port_ssh_or_22_witness:
  "get_target_ssh_port
     [ex_protocol ''rdp'' 3389 ''a1'' None, ex_protocol ''ssh'' 2222 ''a1'' None,
      ex_protocol ''ssh'' 22 ''a2'' None]
     (ex_asset ''a1'' [] None None None) = 2222 \<and>
   get_target_ssh_port
     [ex_protocol ''rdp'' 3389 ''a1'' None, ex_protocol ''ssh'' 2200 ''a2'' None]
     (ex_asset ''a1'' [] None None None) = 22"
proof -
  have a: "get_target_ssh_port
     [ex_protocol ''rdp'' 3389 ''a1'' None, ex_protocol ''ssh'' 2222 ''a1'' None,
      ex_protocol ''ssh'' 22 ''a2'' None]
     (ex_asset ''a1'' [] None None None) = 2222"
    using get_target_ssh_port_ssh_or_22
      [of "[ex_protocol ''rdp'' 3389 ''a1'' None, ex_protocol ''ssh'' 2222 ''a1'' None,
            ex_protocol ''ssh'' 22 ''a2'' None]" "ex_asset ''a1'' [] None None None"]
    by (simp add: asset_protocols_def ex_protocol_def ex_asset_def)
  have b: "get_target_ssh_port
     [ex_protocol ''rdp'' 3389 ''a1'' None, ex_protocol ''ssh'' 2200 ''a2'' None]
     (ex_asset ''a1'' [] None None None) = 22"
    using get_target_ssh_port_ssh_or_22
      [of "[ex_protocol ''rdp'' 3389 ''a1'' None, ex_protocol ''ssh'' 2200 ''a2'' None]"
          "ex_asset ''a1'' [] None None None"]
    by (simp add: asset_protocols_def ex_protocol_def ex_asset_def)
  from a b show ?thesis by simp
qed


section \<open>Layered info\<close>

lemma spec_info_absent:
  "category_attr a (category a) = None \<Longrightarrow> spec_info decode a = Inr Map.empty"
  by (simp add: spec_info_def)

lemma info_merge:
  "info decode a =
     (case spec_info decode a of
        Inl e \<Rightarrow> Inl e
      | Inr s \<Rightarrow> Inr (or_empty (gathered_info a) ++ or_empty (custom_info a) ++ s))"
  by (simp add: info_def Let_def split: sum.splits)

lemma ex_host_spec_values:
  "get_spec_values ex_decode ex_host (get_spec_fields ex_host False)
     = Inr [''k'' \<mapsto> PStr ''s'', ''tags'' \<mapsto> PList [PInt 1]]"
  by (simp add: get_spec_values_def get_spec_fields_def ex_host_def ex_decode_def
      is_list_or_dict_def json_loads_def)

lemma ex_host_secret_values:
  "get_spec_values ex_decode ex_host (get_spec_fields ex_host True)
     = Inr [''token'' \<mapsto> PStr ''t0'']"
  by (simp add: get_spec_values_def get_spec_fields_def ex_host_def ex_decode_def
      is_list_or_dict_def json_loads_def)

text \<open>
  C1, as amended. For an asset with no category-specific extension instance, \<open>info\<close> is
  the gathered dict overwritten by the custom dict (the structured layer adds nothing);
  it is the empty dict exactly when both of them are empty or \<open>None\<close>.
\<close>

theorem info_without_extension:
  assumes "category_attr a (category a) = None"
  shows "info decode a = Inr (or_empty (gathered_info a) ++ or_empty (custom_info a)) \<and>
         (info decode a = Inr Map.empty \<longleftrightarrow>
            or_empty (gathered_info a) = Map.empty \<and> or_empty (custom_info a) = Map.empty)"
  using assms by (simp add: info_merge spec_info_absent)

theorem info_without_extension_witness:
  "category_attr
     (ex_asset ''a1'' [] (Some [''k'' \<mapsto> PStr ''g'']) (Some [''k'' \<mapsto> PStr ''c'']) None)
     (category
       (ex_asset ''a1'' [] (Some [''k'' \<mapsto> PStr ''g'']) (Some [''k'' \<mapsto> PStr ''c'']) None))
     = None \<and>
   info ex_decode
     (ex_asset ''a1'' [] (Some [''k'' \<mapsto> PStr ''g'']) (Some [''k'' \<mapsto> PStr ''c'']) None)
     = Inr [''k'' \<mapsto> PStr ''c'']"
proof -
  let ?a = "ex_asset ''a1'' [] (Some [''k'' \<mapsto> PStr ''g'']) (Some [''k'' \<mapsto> PStr ''c'']) None"
  have n: "category_attr ?a (category ?a) = None"
    by (simp add: ex_asset_def)
  have m: "or_empty (gathered_info ?a) ++ or_empty (custom_info ?a) = [''k'' \<mapsto> PStr ''c'']"
    by (simp add: ex_asset_def or_empty_def)
  have "info ex_decode ?a = Inr (or_empty (gathered_info ?a) ++ or_empty (custom_info ?a))"
    using info_without_extension [OF n, of ex_decode] by (rule conjunct1)
  then have i: "info ex_decode ?a = Inr [''k'' \<mapsto> PStr ''c'']"
    by (simp only: m)
  from n i show ?thesis by (rule conjI)
qed

theorem info_without_extension_counterexample:
  "category_attr (ex_asset ''a1'' [] (Some [''k'' \<mapsto> PStr ''g'']) (Some Map.empty) None)
     (category (ex_asset ''a1'' [] (Some [''k'' \<mapsto> PStr ''g'']) (Some Map.empty) None)) = None \<and>
   info ex_decode (ex_asset ''a1'' [] (Some [''k'' \<mapsto> PStr ''g'']) (Some Map.empty) None)
     = Inr [''k'' \<mapsto> PStr ''g''] \<and>
   info ex_decode (ex_asset ''a1'' [] (Some [''k'' \<mapsto> PStr ''g'']) (Some Map.empty) None)
     \<noteq> Inr Map.empty"
proof -
  let ?a = "ex_asset ''a1'' [] (Some [''k'' \<mapsto> PStr ''g'']) (Some Map.empty) None"
  have n: "category_attr ?a (category ?a) = None"
    by (simp add: ex_asset_def)
  have i: "info ex_decode ?a = Inr [''k'' \<mapsto> PStr ''g'']"
    by (simp add: info_merge spec_info_absent [OF n])
       (simp add: ex_asset_def or_empty_def)
  have "[''k'' \<mapsto> PStr ''g''] ''k'' \<noteq> (Map.empty :: pydict) ''k''"
    by simp
  then have "[''k'' \<mapsto> PStr ''g''] \<noteq> (Map.empty :: pydict)"
    by metis
  with n i show ?thesis by simp
qed

text \<open>
  C6. When the structured fields are read without an error, \<open>info\<close> is the merge of
  the three layers with the precedence gathered < custom < structured: the value of a
  key is the structured one when the structured layer has the key, else the custom one
  when the custom layer has it, else the gathered one. An error of the structured layer
  is the error of \<open>info\<close>.
\<close>

theorem info_layer_precedence:
  "(\<forall>s. spec_info decode a = Inr s \<longrightarrow>
      (\<exists>m. info decode a = Inr m \<and>
           (\<forall>k. m k =
              (case s k of
                 Some v \<Rightarrow> Some v
               | None \<Rightarrow>
                   (case or_empty (custom_info a) k of
                      Some v \<Rightarrow> Some v
                    | None \<Rightarrow> or_empty (gathered_info a) k))))) \<and>
   (\<forall>e. spec_info decode a = Inl e \<longrightarrow> info decode a = Inl e)"
  by (auto simp: info_merge map_add_def split: option.splits)

theorem info_layer_precedence_witness:
  "spec_info ex_decode
     (ex_asset ''a1'' [] (Some [''k'' \<mapsto> PStr ''g'']) (Some [''k'' \<mapsto> PStr ''c''])
        (Some ex_host))
     = Inr [''k'' \<mapsto> PStr ''s'', ''tags'' \<mapsto> PList [PInt 1]] \<and>
   (\<exists>m. info ex_decode
          (ex_asset ''a1'' [] (Some [''k'' \<mapsto> PStr ''g'']) (Some [''k'' \<mapsto> PStr ''c''])
             (Some ex_host))
        = Inr m \<and> m ''k'' = Some (PStr ''s'')) \<and>
   (\<exists>m. info ex_decode
          (ex_asset ''a1'' [] (Some [''k'' \<mapsto> PStr ''g'']) (Some [''k'' \<mapsto> PStr ''c'']) None)
        = Inr m \<and> m ''k'' = Some (PStr ''c''))"
proof -
  let ?a = "ex_asset ''a1'' [] (Some [''k'' \<mapsto> PStr ''g'']) (Some [''k'' \<mapsto> PStr ''c''])
              (Some ex_host)"
  let ?b = "ex_asset ''a1'' [] (Some [''k'' \<mapsto> PStr ''g'']) (Some [''k'' \<mapsto> PStr ''c'']) None"
  have s: "spec_info ex_decode ?a = Inr [''k'' \<mapsto> PStr ''s'', ''tags'' \<mapsto> PList [PInt 1]]"
    by (simp add: spec_info_def category_def ex_asset_def ex_platform_def ex_host_spec_values)
  have t: "spec_info ex_decode ?b = Inr Map.empty"
    by (simp add: spec_info_def category_def ex_asset_def ex_platform_def)
  have c: "or_empty (custom_info ?b) ''k'' = Some (PStr ''c'')"
    by (simp add: ex_asset_def or_empty_def)
  have a: "\<exists>m. info ex_decode ?a = Inr m \<and> m ''k'' = Some (PStr ''s'')"
    using info_layer_precedence [of ex_decode ?a] s by auto
  have b: "\<exists>m. info ex_decode ?b = Inr m \<and> m ''k'' = Some (PStr ''c'')"
    using info_layer_precedence [of ex_decode ?b] t c by auto
  from s a b show ?thesis by blast
qed

section \<open>Secret info\<close>

lemma loop_other:
  "get_spec_values_loop decode inst fs acc = Inr d \<Longrightarrow> k \<notin> f_name ` set fs \<Longrightarrow> d k = acc k"
  by (induction fs arbitrary: acc) (auto simp: Let_def split: if_splits sum.splits)

lemma loop_dom:
  "get_spec_values_loop decode inst fs acc = Inr d \<Longrightarrow> dom d = dom acc \<union> f_name ` set fs"
  by (induction fs arbitrary: acc) (auto simp: Let_def split: if_splits sum.splits)

lemma loop_value:
  "get_spec_values_loop decode inst fs acc = Inr d \<Longrightarrow> k \<in> f_name ` set fs \<Longrightarrow>
   \<exists>v. d k = Some v \<and> (v = attrs inst k \<or> json_loads decode (attrs inst k) = Inr v)"
proof (induction fs arbitrary: acc)
  case Nil
  then show ?case by simp
next
  case (Cons i fs)
  show ?case
  proof (cases "k \<in> f_name ` set fs")
    case True
    with Cons.IH Cons.prems(1) show ?thesis
      by (auto simp: Let_def split: if_splits sum.splits)
  next
    case False
    with Cons.prems(2) have k: "k = f_name i" by simp
    from Cons.prems(1) False k show ?thesis
      by (auto simp: Let_def split: if_splits sum.splits dest: loop_other)
  qed
qed

lemma spec_fields_names:
  "f_name ` set (get_spec_fields inst secret) =
     {f_name i | i. i \<in> set (local_fields inst) \<and> f_is_encrypt i = secret \<and>
                    f_name i \<noteq> ''asset_ptr''}"
  by (auto simp: get_spec_fields_def)

text \<open>
  C5. \<open>secret_info\<close> does not read the gathered and custom dicts: replacing them by any
  others leaves the result (a dict or an error) as it is. The result is the empty dict
  without an extension instance; with one, its keys are exactly the names of the
  instance's encrypted fields (other than \<open>asset_ptr\<close>), and the value of each is the
  instance's attribute of that name or its JSON decoding.
\<close>

theorem secret_info_only_encrypted_fields:
  "secret_info decode (a\<lparr>gathered_info := g, custom_info := c\<rparr>) = secret_info decode a \<and>
   (category_attr a (category a) = None \<longrightarrow> secret_info decode a = Inr Map.empty) \<and>
   (\<forall>inst d. category_attr a (category a) = Some inst \<longrightarrow> secret_info decode a = Inr d \<longrightarrow>
      dom d = {f_name i | i. i \<in> set (local_fields inst) \<and> f_is_encrypt i \<and>
                             f_name i \<noteq> ''asset_ptr''} \<and>
      (\<forall>k \<in> dom d. \<exists>v. d k = Some v \<and>
                       (v = attrs inst k \<or> json_loads decode (attrs inst k) = Inr v)))"
proof (intro conjI allI impI)
  show "secret_info decode (a\<lparr>gathered_info := g, custom_info := c\<rparr>) = secret_info decode a"
    by (simp add: secret_info_def category_def)
next
  assume "category_attr a (category a) = None"
  then show "secret_info decode a = Inr Map.empty"
    by (simp add: secret_info_def)
next
  fix inst d
  assume i: "category_attr a (category a) = Some inst" and s: "secret_info decode a = Inr d"
  from i s have l: "get_spec_values_loop decode inst (get_spec_fields inst True) Map.empty = Inr d"
    by (simp add: secret_info_def get_spec_values_def)
  from loop_dom [OF l]
  show "dom d = {f_name i | i. i \<in> set (local_fields inst) \<and> f_is_encrypt i \<and>
                               f_name i \<noteq> ''asset_ptr''}"
    by (simp add: spec_fields_names)
  show "\<forall>k \<in> dom d. \<exists>v. d k = Some v \<and>
                       (v = attrs inst k \<or> json_loads decode (attrs inst k) = Inr v)"
  proof
    fix k assume "k \<in> dom d"
    with loop_dom [OF l] have "k \<in> f_name ` set (get_spec_fields inst True)" by simp
    from loop_value [OF l this]
    show "\<exists>v. d k = Some v \<and> (v = attrs inst k \<or> json_loads decode (attrs inst k) = Inr v)" .
  qed
qed

theorem secret_info_only_encrypted_fields_witness:
  "category_attr (ex_asset ''a1'' [] None None (Some ex_host))
     (category (ex_asset ''a1'' [] None None (Some ex_host))) = Some ex_host \<and>
   secret_info ex_decode (ex_asset ''a1'' [] None None (Some ex_host))
     = Inr [''token'' \<mapsto> PStr ''t0''] \<and>
   secret_info ex_decode
     ((ex_asset ''a1'' [] None None (Some ex_host))
        \<lparr>gathered_info := Some [''token'' \<mapsto> PStr ''g''],
         custom_info := Some [''token'' \<mapsto> PStr ''c'']\<rparr>)
     = Inr [''token'' \<mapsto> PStr ''t0''] \<and>
   dom [''token'' \<mapsto> PStr ''t0''] = {''token''}"
proof -
  let ?a = "ex_asset ''a1'' [] None None (Some ex_host)"
  have i: "category_attr ?a (category ?a) = Some ex_host"
    by (simp add: category_def ex_asset_def ex_platform_def)
  have s: "secret_info ex_decode ?a = Inr [''token'' \<mapsto> PStr ''t0'']"
    by (simp add: secret_info_def i ex_host_secret_values)
  have "secret_info ex_decode
          (?a\<lparr>gathered_info := Some [''token'' \<mapsto> PStr ''g''],
              custom_info := Some [''token'' \<mapsto> PStr ''c'']\<rparr>) = secret_info ex_decode ?a"
    using secret_info_only_encrypted_fields
      [where decode = ex_decode and a = ?a and g = "Some [''token'' \<mapsto> PStr ''g'']"
         and c = "Some [''token'' \<mapsto> PStr ''c'']"]
    by (rule conjunct1)
  then have u: "secret_info ex_decode
          (?a\<lparr>gathered_info := Some [''token'' \<mapsto> PStr ''g''],
              custom_info := Some [''token'' \<mapsto> PStr ''c'']\<rparr>) = Inr [''token'' \<mapsto> PStr ''t0'']"
    by (simp only: s)
  have d: "dom [''token'' \<mapsto> PStr ''t0''] = {''token''}"
    by simp
  from i s u d show ?thesis by blast
qed

section \<open>Automation configuration\<close>

text \<open>
  C8. Without an automation profile \<open>auto_config\<close> is the base dict of \<open>su_enabled\<close>,
  \<open>domain_enabled\<close> and \<open>ansible_enabled = False\<close>; with one, each key of the
  profile's dict has the profile's value (also \<open>ansible_enabled\<close>) and every other key
  has the base dict's.
\<close>

theorem auto_config_base_and_automation:
  "(automation (platform a) = None \<longrightarrow>
      auto_config model_to_dict a =
        [''su_enabled'' \<mapsto> PBool (su_enabled (platform a)),
         ''domain_enabled'' \<mapsto> PBool (domain_enabled (platform a)),
         ''ansible_enabled'' \<mapsto> PBool False]) \<and>
   (\<forall>au. automation (platform a) = Some au \<longrightarrow>
      (\<forall>k. auto_config model_to_dict a k =
         (case model_to_dict au k of
            Some v \<Rightarrow> Some v
          | None \<Rightarrow>
              [''su_enabled'' \<mapsto> PBool (su_enabled (platform a)),
               ''domain_enabled'' \<mapsto> PBool (domain_enabled (platform a)),
               ''ansible_enabled'' \<mapsto> PBool False] k)))"
  by (simp add: auto_config_def Let_def map_add_def split: option.splits)

theorem auto_config_base_and_automation_witness:
  "auto_config (\<lambda>d. d) (ex_asset ''a1'' [] None None None) =
     [''su_enabled'' \<mapsto> PBool True, ''domain_enabled'' \<mapsto> PBool False,
      ''ansible_enabled'' \<mapsto> PBool False] \<and>
   auto_config (\<lambda>d. d)
     ((ex_asset ''a1'' [] None None None)
        \<lparr>platform := ex_platform (Some [''ansible_enabled'' \<mapsto> PBool True,
                                         ''ping_method'' \<mapsto> PStr ''ping''])\<rparr>)
     ''ansible_enabled'' = Some (PBool True) \<and>
   auto_config (\<lambda>d. d)
     ((ex_asset ''a1'' [] None None None)
        \<lparr>platform := ex_platform (Some [''ansible_enabled'' \<mapsto> PBool True,
                                         ''ping_method'' \<mapsto> PStr ''ping''])\<rparr>)
     ''su_enabled'' = Some (PBool True)"
proof -
  let ?a = "ex_asset ''a1'' [] None None None"
  let ?au = "[''ansible_enabled'' \<mapsto> PBool True, ''ping_method'' \<mapsto> PStr ''ping'']"
  let ?b = "?a\<lparr>platform := ex_platform (Some ?au)\<rparr>"
  have 1: "auto_config (\<lambda>d. d) ?a =
     [''su_enabled'' \<mapsto> PBool True, ''domain_enabled'' \<mapsto> PBool False,
      ''ansible_enabled'' \<mapsto> PBool False]"
    using auto_config_base_and_automation [of ?a "\<lambda>d. d"]
    by (simp add: ex_asset_def ex_platform_def)
  have au: "automation (platform ?b) = Some ?au"
    by (simp add: ex_platform_def)
  have 2: "auto_config (\<lambda>d. d) ?b ''ansible_enabled'' = Some (PBool True)"
    using auto_config_base_and_automation [of ?b "\<lambda>d. d"] au
    by simp
  have 3: "auto_config (\<lambda>d. d) ?b ''su_enabled'' = Some (PBool True)"
    using auto_config_base_and_automation [of ?b "\<lambda>d. d"] au
    by (simp add: ex_platform_def)
  from 1 2 3 show ?thesis by blast
qed


section \<open>Nodes of an asset\<close>

lemma filter_id_singleton:
  "distinct (map node_id tbl) \<Longrightarrow> r \<in> set tbl \<Longrightarrow>
   filter (\<lambda>n. node_id n = node_id r) tbl = [r]"
proof (induction tbl)
  case Nil
  then show ?case by simp
next
  case (Cons x xs)
  show ?case
  proof (cases "x = r")
    case True
    with Cons.prems(1) have "\<forall>n \<in> set xs. node_id n \<noteq> node_id r"
      by (auto simp: image_iff)
    then have "filter (\<lambda>n. node_id n = node_id r) xs = []"
      by (simp add: filter_empty_conv)
    with True show ?thesis by simp
  next
    case False
    with Cons.prems have r: "r \<in> set xs" and "node_id x \<noteq> node_id r"
      by (auto simp: image_iff)
    with Cons.IH Cons.prems(1) show ?thesis by simp
  qed
qed

text \<open>
  C7. With the organization root a row of the node table and the ids of the table
  distinct (the primary key), \<open>get_nodes\<close> returns the asset's nodes when there are
  some and the single organization root otherwise; it is never empty.
\<close>

theorem get_nodes_never_empty:
  assumes "org_root \<in> set node_objects" and "distinct (map node_id node_objects)"
  shows "get_nodes node_objects org_root a = (if nodes a \<noteq> [] then nodes a else [org_root]) \<and>
         get_nodes node_objects org_root a \<noteq> []"
  using assms by (simp add: get_nodes_def Let_def filter_id_singleton)

theorem get_nodes_never_empty_witness:
  "ex_node ''n1'' ''1'' \<in> set [ex_node ''n1'' ''1'', ex_node ''n2'' ''1:2'', ex_node ''n3'' ''1:3''] \<and>
   distinct (map node_id [ex_node ''n1'' ''1'', ex_node ''n2'' ''1:2'', ex_node ''n3'' ''1:3'']) \<and>
   get_nodes [ex_node ''n1'' ''1'', ex_node ''n2'' ''1:2'', ex_node ''n3'' ''1:3'']
     (ex_node ''n1'' ''1'') (ex_asset ''a1'' [] None None None) = [ex_node ''n1'' ''1''] \<and>
   get_nodes [ex_node ''n1'' ''1'', ex_node ''n2'' ''1:2'', ex_node ''n3'' ''1:3'']
     (ex_node ''n1'' ''1'') (ex_asset ''a2'' [ex_node ''n2'' ''1:2''] None None None)
     = [ex_node ''n2'' ''1:2'']"
proof -
  let ?tbl = "[ex_node ''n1'' ''1'', ex_node ''n2'' ''1:2'', ex_node ''n3'' ''1:3'']"
  let ?r = "ex_node ''n1'' ''1''"
  have m: "?r \<in> set ?tbl" by simp
  have d: "distinct (map node_id ?tbl)" by (simp add: ex_node_def)
  have 1: "get_nodes ?tbl ?r (ex_asset ''a1'' [] None None None) = [?r]"
    using get_nodes_never_empty [OF m d, of "ex_asset ''a1'' [] None None None"]
    by (simp add: ex_asset_def)
  have 2: "get_nodes ?tbl ?r (ex_asset ''a2'' [ex_node ''n2'' ''1:2''] None None None)
             = [ex_node ''n2'' ''1:2'']"
    using get_nodes_never_empty [OF m d, of "ex_asset ''a2'' [ex_node ''n2'' ''1:2''] None None None"]
    by (simp add: ex_asset_def)
  from m d 1 2 show ?thesis by blast
qed

text \<open>
  C4. For two assets \<open>a\<close> and \<open>b\<close>, the nodes returned by \<open>get_all_nodes_for_assets\<close>
  on the two, in either order, are the nodes returned by \<open>get_all_nodes\<close> on \<open>a\<close>
  together with those returned on \<open>b\<close>.
\<close>

theorem get_all_nodes_for_assets_union:
  "set (get_all_nodes_for_assets node_objects org_root get_ancestor_keys [a, b]) =
     set (get_all_nodes node_objects org_root get_ancestor_keys a) \<union>
     set (get_all_nodes node_objects org_root get_ancestor_keys b) \<and>
   set (get_all_nodes_for_assets node_objects org_root get_ancestor_keys [b, a]) =
     set (get_all_nodes node_objects org_root get_ancestor_keys a) \<union>
     set (get_all_nodes node_objects org_root get_ancestor_keys b)"
  by (auto simp: get_all_nodes_for_assets_def get_all_nodes_def Let_def)


theorem get_all_nodes_for_assets_union_witness:
  "set (get_all_nodes_for_assets
          [ex_node ''n1'' ''1'', ex_node ''n2'' ''1:2'', ex_node ''n3'' ''1:3'']
          (ex_node ''n1'' ''1'') ex_ancestor_keys
          [ex_asset ''a1'' [] None None None,
           ex_asset ''a2'' [ex_node ''n2'' ''1:2''] None None None])
     = {ex_node ''n1'' ''1'', ex_node ''n2'' ''1:2''}"
proof -
  let ?tbl = "[ex_node ''n1'' ''1'', ex_node ''n2'' ''1:2'', ex_node ''n3'' ''1:3'']"
  let ?r = "ex_node ''n1'' ''1''"
  have 1: "get_all_nodes ?tbl ?r ex_ancestor_keys (ex_asset ''a1'' [] None None None) = [?r]"
    by (simp add: get_all_nodes_def get_all_node_keys_def get_nodes_def ex_asset_def
        ex_node_def ex_ancestor_keys_def)
  have 2: "get_all_nodes ?tbl ?r ex_ancestor_keys
             (ex_asset ''a2'' [ex_node ''n2'' ''1:2''] None None None)
           = [?r, ex_node ''n2'' ''1:2'']"
    by (simp add: get_all_nodes_def get_all_node_keys_def get_nodes_def ex_asset_def
        ex_node_def ex_ancestor_keys_def)
  show ?thesis
    using get_all_nodes_for_assets_union
      [of ?tbl ?r ex_ancestor_keys "ex_asset ''a1'' [] None None None"
          "ex_asset ''a2'' [ex_node ''n2'' ''1:2''] None None None"]
    by (simp only: 1 2) auto
qed

section \<open>Assets by secret type\<close>

lemma fold_secret_types_step:
  "fold (secret_types_step tbl) rows m k =
     (if k \<in> fst ` set rows
      then Some ((case m k of None \<Rightarrow> {} | Some s \<Rightarrow> s) \<union>
                 (\<Union>r \<in> {r \<in> set rows. fst r = k}. set (secret_types_get tbl (snd r))))
      else m k)"
proof (induction rows arbitrary: m)
  case Nil
  then show ?case by simp
next
  case (Cons r rows)
  obtain aid pr where r: "r = (aid, pr)" by (cases r)
  show ?case
    unfolding fold_simps Cons.IH
    by (auto simp: r secret_types_step_def Let_def split: option.splits)
qed

lemma set_values_list:
  "set (values_list_id_protocols_name protocol_objects assets) =
     (\<Union>a \<in> set assets.
        if asset_protocols protocol_objects a = [] then {(asset_id a, None)}
        else (\<lambda>p. (asset_id a, Some (proto_name p))) ` set (asset_protocols protocol_objects a))"
proof -
  have row: "set (case ps of [] \<Rightarrow> [(i, None)]
                  | x # xs \<Rightarrow> map (\<lambda>p. (i, Some (proto_name p))) (x # xs)) =
               (if ps = [] then {(i, None)} else (\<lambda>p. (i, Some (proto_name p))) ` set ps)"
    for ps :: "'a protocol list" and i :: string
    by (cases ps) simp_all
  show ?thesis
    by (simp add: values_list_id_protocols_name_def row)
qed

lemma asset_protocols_id:
  "asset_id a' = asset_id a \<Longrightarrow> asset_protocols objs a' = asset_protocols objs a"
  by (simp add: asset_protocols_def)

lemma secret_types_get_None: "secret_types_get tbl None = []"
  by (simp add: secret_types_get_def)

lemma in_secret_types_get_Some:
  "st \<in> set (secret_types_get tbl (Some n)) \<longleftrightarrow> (\<exists>ts. tbl n = Some ts \<and> st \<in> set ts)"
  by (cases "tbl n") (simp_all add: secret_types_get_def)

lemma mapp_member:
  assumes "a \<in> set assets"
  shows "st \<in> (case fold (secret_types_step tbl)
                      (values_list_id_protocols_name protocol_objects assets) Map.empty (asset_id a)
               of None \<Rightarrow> {} | Some s \<Rightarrow> s) \<longleftrightarrow>
         (\<exists>p \<in> set (asset_protocols protocol_objects a).
            \<exists>ts. tbl (proto_name p) = Some ts \<and> st \<in> set ts)"
    (is "?L \<longleftrightarrow> ?R")
proof
  let ?rows = "values_list_id_protocols_name protocol_objects assets"
  assume ?L
  then obtain r where r: "r \<in> set ?rows" "fst r = asset_id a"
      "st \<in> set (secret_types_get tbl (snd r))"
    by (auto simp: fold_secret_types_step split: if_splits)
  from r(1) obtain a' where a': "a' \<in> set assets"
      "r \<in> (if asset_protocols protocol_objects a' = [] then {(asset_id a', None)}
            else (\<lambda>p. (asset_id a', Some (proto_name p))) ` set (asset_protocols protocol_objects a'))"
    unfolding set_values_list by blast
  show ?R
  proof (cases "asset_protocols protocol_objects a' = []")
    case True
    with a'(2) r(3) show ?thesis by (simp add: secret_types_get_None)
  next
    case False
    with a'(2) obtain p where p: "p \<in> set (asset_protocols protocol_objects a')"
        "r = (asset_id a', Some (proto_name p))"
      by auto
    from p(2) r(2) have "asset_id a' = asset_id a" by simp
    then have "asset_protocols protocol_objects a' = asset_protocols protocol_objects a"
      by (rule asset_protocols_id)
    with p r(3) show ?thesis
      by (auto simp: in_secret_types_get_Some)
  qed
next
  let ?rows = "values_list_id_protocols_name protocol_objects assets"
  assume ?R
  then obtain p ts where p: "p \<in> set (asset_protocols protocol_objects a)"
      "tbl (proto_name p) = Some ts" "st \<in> set ts"
    by blast
  from p(1) have ne: "asset_protocols protocol_objects a \<noteq> []" by auto
  with assms p(1) have "(asset_id a, Some (proto_name p)) \<in> set ?rows"
    unfolding set_values_list by force
  moreover from p have "st \<in> set (secret_types_get tbl (Some (proto_name p)))"
    by (simp add: in_secret_types_get_Some)
  ultimately show ?L
    by (force simp: fold_secret_types_step)
qed

text \<open>
  C3. \<open>get_secret_type_assets\<close> returns, in the order of the asset table, exactly the
  assets whose id is among the given ids and that have a protocol whose name the static
  table maps to a list containing the given secret type.
\<close>

theorem get_secret_type_assets_exact:
  "get_secret_type_assets asset_objects protocol_objects tbl asset_ids secret_type =
     filter (\<lambda>a. asset_id a \<in> set asset_ids \<and>
                 (\<exists>p \<in> set (asset_protocols protocol_objects a).
                    \<exists>ts. tbl (proto_name p) = Some ts \<and> secret_type \<in> set ts))
       asset_objects"
proof -
  let ?assets = "filter (\<lambda>a. asset_id a \<in> set asset_ids) asset_objects"
  have "get_secret_type_assets asset_objects protocol_objects tbl asset_ids secret_type =
          filter (\<lambda>a. secret_type \<in>
                    (case fold (secret_types_step tbl)
                            (values_list_id_protocols_name protocol_objects ?assets) Map.empty
                            (asset_id a)
                     of None \<Rightarrow> {} | Some s \<Rightarrow> s)) ?assets"
    by (simp add: get_secret_type_assets_def Let_def)
  also have "\<dots> = filter (\<lambda>a. \<exists>p \<in> set (asset_protocols protocol_objects a).
                               \<exists>ts. tbl (proto_name p) = Some ts \<and> secret_type \<in> set ts) ?assets"
    by (rule filter_cong [OF refl]) (rule mapp_member)
  also have "\<dots> = filter (\<lambda>a. asset_id a \<in> set asset_ids \<and>
                 (\<exists>p \<in> set (asset_protocols protocol_objects a).
                    \<exists>ts. tbl (proto_name p) = Some ts \<and> secret_type \<in> set ts))
       asset_objects"
    by (simp add: conj_commute)
  finally show ?thesis .
qed

theorem get_secret_type_assets_exact_witness:
  "get_secret_type_assets
     [ex_asset ''a1'' [] None None None, ex_asset ''a2'' [] None None None,
      ex_asset ''a3'' [] None None None]
     [ex_protocol ''ssh'' 22 ''a1'' None, ex_protocol ''vnc'' 5900 ''a2'' None,
      ex_protocol ''ssh'' 22 ''a3'' None]
     ex_secret_types [''a1'', ''a2''] ''password''
   = [ex_asset ''a1'' [] None None None]"
  using get_secret_type_assets_exact
    [of "[ex_asset ''a1'' [] None None None, ex_asset ''a2'' [] None None None,
          ex_asset ''a3'' [] None None None]"
        "[ex_protocol ''ssh'' 22 ''a1'' None, ex_protocol ''vnc'' 5900 ''a2'' None,
          ex_protocol ''ssh'' 22 ''a3'' None]"
        ex_secret_types "[''a1'', ''a2'']" "''password''"]
  by (simp add: asset_protocols_def ex_protocol_def ex_asset_def ex_secret_types_def)

end
